theory Spec2Isabelle
  imports Complex_Main
begin

text \<open>
  A shallow embedding of the Movie RAG frontend's TMDB client and its search
  proxy route, and of the two components of the corrective pipeline
  (CorrectiveCombiner, AnswerSynthesizer) that the specification describes and
  whose code is not among the sources. Definitions come first, their properties
  after.
\<close>

section \<open>The TMDB client (lib/tmdb/client)\<close>

text \<open>
  The module the routes import as \<^verbatim>\<open>@/lib/tmdb/client\<close>; in the sources it
  is the second part of \<^verbatim>\<open>frontend/lib/utils/animations.ts\<close> (lines 178 to 375).
\<close>

subsection \<open>The in-memory cache with TTL\<close>

text \<open>
  \<^verbatim>\<open>interface CacheEntry<T> { data: T; timestamp: number; }\<close>
  A timestamp is a reading of \<^verbatim>\<open>Date.now()\<close>: milliseconds, an integer.
\<close>

record 'a CacheEntry =
  data :: 'a
  timestamp :: int

text \<open>
  \<^verbatim>\<open>class TMDBCache { private cache = new Map<string, CacheEntry<any>>(); ... }\<close>
  The object's state is the private map; the field \<^verbatim>\<open>ttl\<close> is
  initialised to \<^verbatim>\<open>15 * 60 * 1000\<close> and never assigned again.
\<close>

type_synonym 'a TMDBCache = "string \<rightharpoonup> 'a CacheEntry"

definition ttl :: int where
  "ttl = 15 * 60 * 1000"

text \<open>
  \<^verbatim>\<open>get<T>(key: string): T | null\<close>. The clock reading \<^verbatim>\<open>Date.now()\<close>
  is the argument \<open>now\<close>; the result \<open>None\<close> is \<^verbatim>\<open>null\<close> and
  \<open>Some d\<close> is the stored data \<open>d\<close>, returned as it is. The method mutates
  the map (it deletes an expired entry), so the model returns the map as it is
  left. An entry object is always truthy, so \<^verbatim>\<open>!entry\<close> holds exactly when
  the key has no entry.
\<close>

definition TMDBCache_get :: "'a TMDBCache \<Rightarrow> string \<Rightarrow> int \<Rightarrow> 'a option \<times> 'a TMDBCache" where
  "TMDBCache_get cache key now =
     (case cache key of
        None \<Rightarrow> (None, cache)
      | Some entry \<Rightarrow>
          if now - timestamp entry > ttl
          then (None, cache(key := None))
          else (Some (data entry), cache))"

text \<open>\<^verbatim>\<open>set<T>(key: string, data: T): void\<close>, stamping the entry with \<^verbatim>\<open>Date.now()\<close>.\<close>

definition TMDBCache_set :: "'a TMDBCache \<Rightarrow> string \<Rightarrow> 'a \<Rightarrow> int \<Rightarrow> 'a TMDBCache" where
  "TMDBCache_set cache key d now = cache(key \<mapsto> \<lparr>data = d, timestamp = now\<rparr>)"

text \<open>\<^verbatim>\<open>clear(): void\<close>\<close>

definition TMDBCache_clear :: "'a TMDBCache \<Rightarrow> 'a TMDBCache" where
  "TMDBCache_clear cache = Map.empty"

subsection \<open>Values and the platform\<close>

text \<open>
  The data the client caches and returns is whatever \<^verbatim>\<open>response.json()\<close>
  yields: a JSON value. \<^verbatim>\<open>if (cached)\<close> tests its truthiness.
\<close>

datatype json =
    JNull
  | JBool bool
  | JNum rat
  | JStr string
  | JArr "json list"
  | JObj "(string \<times> json) list"

fun truthy :: "json \<Rightarrow> bool" where
  "truthy JNull = False"
| "truthy (JBool b) = b"
| "truthy (JNum n) = (n \<noteq> 0)"
| "truthy (JStr s) = (s \<noteq> [])"
| "truthy (JArr xs) = True"
| "truthy (JObj kvs) = True"

text \<open>
  What \<^verbatim>\<open>await fetch(url)\<close> resolves to: the fields of the response the
  client reads. \<open>json_body\<close> is the outcome of \<^verbatim>\<open>await response.json()\<close>,
  \<open>None\<close> when it throws.
\<close>

record Response =
  ok :: bool
  status :: nat
  statusText :: string
  json_body :: "json option"

text \<open>The errors \<^verbatim>\<open>tmdbFetch\<close> throws or lets through.\<close>

datatype error =
    ApiKeyNotConfigured    \<comment> \<open>\<^verbatim>\<open>new Error('TMDB API key is not configured')\<close>\<close>
  | ApiError nat string    \<comment> \<open>\<^verbatim>\<open>new Error(`TMDB API error: ${status} ${statusText}`)\<close>\<close>
  | FetchRejected          \<comment> \<open>\<^verbatim>\<open>fetch\<close> rejects\<close>
  | BodyNotJson            \<comment> \<open>\<^verbatim>\<open>response.json()\<close> rejects\<close>

text \<open>
  What the module reads from outside the repository: the environment variable
  \<^verbatim>\<open>process.env.NEXT_PUBLIC_TMDB_API_KEY\<close> (\<open>None\<close> when undefined), the
  platform's \<^verbatim>\<open>JSON.stringify\<close> on a record of strings, the platform's
  \<^verbatim>\<open>URL\<close> serialisation (a base address and the appended search
  parameters), and the network (\<open>None\<close> when \<^verbatim>\<open>fetch\<close> rejects).
\<close>

record env =
  TMDB_API_KEY :: "string option"
  JSON_stringify :: "(string \<times> string) list \<Rightarrow> string"
  URL_toString :: "string \<Rightarrow> (string \<times> string) list \<Rightarrow> string"
  fetch :: "string \<Rightarrow> Response option"

definition TMDB_BASE_URL :: string where
  "TMDB_BASE_URL = ''https://api.themoviedb.org/3''"

text \<open>\<^verbatim>\<open>TMDB_API_KEY || ''\<close>\<close>

definition key_or_empty :: "string option \<Rightarrow> string" where
  "key_or_empty k = (case k of None \<Rightarrow> [] | Some s \<Rightarrow> s)"

text \<open>\<^verbatim>\<open>function buildUrl(endpoint, params = {}): string\<close>\<close>

definition buildUrl :: "env \<Rightarrow> string \<Rightarrow> (string \<times> string) list \<Rightarrow> string" where
  "buildUrl e endpoint params =
     URL_toString e (TMDB_BASE_URL @ endpoint)
       ((''api_key'', key_or_empty (TMDB_API_KEY e)) # params)"

subsection \<open>The generic fetch with cache\<close>

text \<open>
  \<^verbatim>\<open>async function tmdbFetch<T>(endpoint, params = {}): Promise<T>\<close>.
  A rejected promise is \<open>Inl\<close>. The module-level cache is passed in and
  returned; \<open>t_get\<close> and \<open>t_set\<close> are the readings of \<^verbatim>\<open>Date.now()\<close>
  inside \<^verbatim>\<open>cache.get\<close> and \<^verbatim>\<open>cache.set\<close>. \<^verbatim>\<open>!TMDB_API_KEY\<close>
  holds for an undefined and for an empty key.
\<close>

definition tmdbFetch ::
  "env \<Rightarrow> json TMDBCache \<Rightarrow> int \<Rightarrow> int \<Rightarrow> string \<Rightarrow> (string \<times> string) list
     \<Rightarrow> (error + json) \<times> json TMDBCache" where
  "tmdbFetch e cache t_get t_set endpoint params =
     (if key_or_empty (TMDB_API_KEY e) = [] then (Inl ApiKeyNotConfigured, cache)
      else
        let cacheKey = endpoint @ '':'' @ JSON_stringify e params;
            (cached, cache1) = TMDBCache_get cache cacheKey t_get
        in case (case cached of None \<Rightarrow> None
                 | Some d \<Rightarrow> if truthy d then Some d else None) of
             Some d \<Rightarrow> (Inr d, cache1)
           | None \<Rightarrow>
               (case fetch e (buildUrl e endpoint params) of
                  None \<Rightarrow> (Inl FetchRejected, cache1)
                | Some response \<Rightarrow>
                    if \<not> ok response
                    then (Inl (ApiError (status response) (statusText response)), cache1)
                    else (case json_body response of
                            None \<Rightarrow> (Inl BodyNotJson, cache1)
                          | Some d \<Rightarrow> (Inr d, TMDBCache_set cache1 cacheKey d t_set))))"

text \<open>
  \<^verbatim>\<open>page.toString()\<close> for a page number that is a natural number below
  \<open>2 ^ 53\<close>, where JavaScript prints every decimal digit; the route always
  passes page 1. Larger, negative and fractional numbers are outside this model.
\<close>

definition digits :: string where
  "digits = ''0123456789''"

fun toString :: "nat \<Rightarrow> string" where
  "toString n =
     (if n < 10 then [digits ! n] else toString (n div 10) @ [digits ! (n mod 10)])"

declare toString.simps [simp del]

text \<open>\<^verbatim>\<open>export async function searchMulti(query, page = 1)\<close>\<close>

definition searchMulti ::
  "env \<Rightarrow> json TMDBCache \<Rightarrow> int \<Rightarrow> int \<Rightarrow> string \<Rightarrow> nat
     \<Rightarrow> (error + json) \<times> json TMDBCache" where
  "searchMulti e cache t_get t_set query page =
     tmdbFetch e cache t_get t_set ''/search/multi''
       [(''query'', query), (''page'', toString page), (''include_adult'', ''false'')]"

section \<open>The search proxy route (GET /api/tmdb/search)\<close>

text \<open>The handler is \<^verbatim>\<open>unnamed/part_000\<close> of the sources.\<close>

text \<open>
  What \<^verbatim>\<open>NextResponse.json(body, init)\<close> builds: the status (200 unless
  \<^verbatim>\<open>init.status\<close> is given), the JSON body and the headers of \<^verbatim>\<open>init\<close>.
\<close>

record NextResponse =
  http_status :: nat
  body :: json
  headers :: "(string \<times> string) list"

definition error_body :: "string \<Rightarrow> json" where
  "error_body msg = JObj [(''error'', JStr msg)]"

definition q_required :: string where
  \<open>q_required = ''Query parameter "q" is required''\<close>

text \<open>
  \<^verbatim>\<open>export async function GET(request: NextRequest)\<close>. The argument \<open>q\<close>
  is \<^verbatim>\<open>request.nextUrl.searchParams.get('q')\<close>: \<open>None\<close> when the
  parameter is absent. \<^verbatim>\<open>!query\<close> holds for \<^verbatim>\<open>null\<close> and for the
  empty string. The \<^verbatim>\<open>catch\<close> turns every rejection of
  \<^verbatim>\<open>searchMulti\<close> into the 500 response.
\<close>

definition GET ::
  "env \<Rightarrow> json TMDBCache \<Rightarrow> int \<Rightarrow> int \<Rightarrow> string option \<Rightarrow> NextResponse \<times> json TMDBCache" where
  "GET e cache t_get t_set q =
     (case q of
        None \<Rightarrow> (\<lparr>http_status = 400, body = error_body q_required, headers = []\<rparr>, cache)
      | Some query \<Rightarrow>
          if query = []
          then (\<lparr>http_status = 400, body = error_body q_required, headers = []\<rparr>, cache)
          else
            (case searchMulti e cache t_get t_set query 1 of
               (Inr results, cache') \<Rightarrow>
                 (\<lparr>http_status = 200, body = results,
                   headers = [(''Cache-Control'',
                               ''public, s-maxage=900, stale-while-revalidate=1800'')]\<rparr>,
                  cache')
             | (Inl err, cache') \<Rightarrow>
                 (\<lparr>http_status = 500, body = error_body ''Failed to search TMDB'',
                   headers = []\<rparr>,
                  cache')))"

text \<open>A platform for concrete runs: a configured key and a network that answers
  every address with one page of no results.\<close>

definition empty_page :: json where
  "empty_page = JObj [(''page'', JNum 1), (''results'', JArr []),
                      (''total_pages'', JNum 0), (''total_results'', JNum 0)]"

definition answering_env :: env where
  "answering_env =
     \<lparr>TMDB_API_KEY = Some ''k3y'',
      JSON_stringify = (\<lambda>ps. concat (map (\<lambda>(k, v). k @ ''='' @ v @ '';'') ps)),
      URL_toString = (\<lambda>base ps. base @ ''?'' @ concat (map (\<lambda>(k, v). k @ ''='' @ v @ ''&'') ps)),
      fetch = (\<lambda>url. Some \<lparr>ok = True, status = 200, statusText = ''OK'',
                               json_body = Some empty_page\<rparr>)\<rparr>"

text \<open>The same platform with the network down.\<close>

definition offline_env :: env where
  "offline_env = answering_env\<lparr>fetch := (\<lambda>url. None)\<rparr>"

section \<open>The corrective pipeline, from the specification\<close>

subsection \<open>CorrectiveCombiner\<close>

text \<open>
  Modelled from the spec: the backend's CorrectiveCombiner is not among the
  sources (only the README's three score brackets are). Spec 3:
  \<^verbatim>\<open>RelevanceAssessment: {score: float in [0,10], rationale: text}\<close>,
  \<^verbatim>\<open>BlendPolicy: {databaseWeight, webWeight}\<close>. Scores and weights are
  rationals here.
\<close>

record RelevanceAssessment =
  score :: rat
  rationale :: string

record BlendPolicy =
  databaseWeight :: rat
  webWeight :: rat

text \<open>
  Modelled from the spec: \<^verbatim>\<open>combine(assessment) -> BlendPolicy\<close>, the threshold
  table of spec 4.4: score \<open>\<ge> 8.5\<close> gives 0.85/0.15, score in \<open>[7.0, 8.5)\<close>
  gives 0.55/0.45, score \<open>< 7.0\<close> gives 0.25/0.75.
\<close>

definition combine :: "RelevanceAssessment \<Rightarrow> BlendPolicy" where
  "combine assessment =
     (if score assessment \<ge> 8.5 then \<lparr>databaseWeight = 0.85, webWeight = 0.15\<rparr>
      else if score assessment \<ge> 7.0 then \<lparr>databaseWeight = 0.55, webWeight = 0.45\<rparr>
      else \<lparr>databaseWeight = 0.25, webWeight = 0.75\<rparr>)"

subsection \<open>AnswerSynthesizer\<close>




















section \<open>Properties of the cache\<close>

lemma ttl_value: "ttl = 900000"
  by (simp add: ttl_def)

lemma TMDBCache_get_set_fresh:
  "t1 - t0 \<le> ttl \<Longrightarrow>
   TMDBCache_get (TMDBCache_set c k v t0) k t1 = (Some v, TMDBCache_set c k v t0)"
  by (simp add: TMDBCache_get_def TMDBCache_set_def)

lemma TMDBCache_get_set_expired:
  "t1 - t0 > ttl \<Longrightarrow>
   TMDBCache_get (TMDBCache_set c k v t0) k t1 = (None, (TMDBCache_set c k v t0)(k := None))"
  by (simp add: TMDBCache_get_def TMDBCache_set_def)

lemma TMDBCache_get_absent:
  "c k = None \<Longrightarrow> TMDBCache_get c k t = (None, c)"
  by (simp add: TMDBCache_get_def)

lemma TMDBCache_set_then_delete:
  "(TMDBCache_set c k v t0)(k := None) = c(k := None)"
  by (simp add: TMDBCache_set_def)

lemma TMDBCache_get_served:
  "TMDBCache_get c k now = (Some v, c') \<Longrightarrow>
   \<exists>entry. c k = Some entry \<and> data entry = v \<and> now - timestamp entry \<le> ttl \<and> c' = c"
  by (auto simp: TMDBCache_get_def split: option.splits if_splits)

text \<open>Operations on another key do not change what a key is served.\<close>

lemma TMDBCache_get_after_other_set:
  "k' \<noteq> k \<Longrightarrow>
   fst (TMDBCache_get (TMDBCache_set c k' v' t) k now) = fst (TMDBCache_get c k now)"
  by (simp add: TMDBCache_get_def TMDBCache_set_def split: option.splits)

lemma TMDBCache_get_after_other_get:
  "k' \<noteq> k \<Longrightarrow>
   fst (TMDBCache_get (snd (TMDBCache_get c k' t)) k now) = fst (TMDBCache_get c k now)"
  by (auto simp: TMDBCache_get_def split: option.splits)

lemma TMDBCache_get_after_clear:
  "TMDBCache_get (TMDBCache_clear c) k now = (None, TMDBCache_clear c)"
  by (simp add: TMDBCache_get_def TMDBCache_clear_def)

text \<open>
  C9. For every cache, key and value: a \<open>get\<close> of the key after a \<open>set\<close> of
  it returns the value, and leaves the cache as it was, whenever the clock has
  advanced by at most 15 minutes (900000 ms) between the two; once it has advanced
  by more, the \<open>get\<close> returns \<open>null\<close> and deletes the entry, so that every
  later \<open>get\<close> of the key returns \<open>null\<close> too. In any cache a \<open>get\<close> that
  returns a value returns the data of an entry that is at most 15 minutes old.
\<close>

theorem TMDBCache_get_after_set:
  "(t1 - t0 \<le> 15 * 60 * 1000 \<longrightarrow>
      TMDBCache_get (TMDBCache_set c key v t0) key t1 = (Some v, TMDBCache_set c key v t0))
   \<and> (t1 - t0 > 15 * 60 * 1000 \<longrightarrow>
      fst (TMDBCache_get (TMDBCache_set c key v t0) key t1) = None
      \<and> snd (TMDBCache_get (TMDBCache_set c key v t0) key t1) = c(key := None)
      \<and> (\<forall>t2. fst (TMDBCache_get
                      (snd (TMDBCache_get (TMDBCache_set c key v t0) key t1)) key t2) = None))
   \<and> (\<forall>w c'. TMDBCache_get c0 key now = (Some w, c') \<longrightarrow>
        (\<exists>entry. c0 key = Some entry \<and> data entry = w
           \<and> now - timestamp entry \<le> 15 * 60 * 1000))"
proof (intro conjI impI allI)
  assume "t1 - t0 \<le> 15 * 60 * 1000"
  then show "TMDBCache_get (TMDBCache_set c key v t0) key t1 = (Some v, TMDBCache_set c key v t0)"
    by (simp add: TMDBCache_get_set_fresh ttl_def)
next
  assume late: "15 * 60 * 1000 < t1 - t0"
  then have expired:
    "TMDBCache_get (TMDBCache_set c key v t0) key t1 = (None, c(key := None))"
    by (simp add: TMDBCache_get_set_expired TMDBCache_set_then_delete ttl_def)
  show "fst (TMDBCache_get (TMDBCache_set c key v t0) key t1) = None"
    by (simp add: expired)
  show "snd (TMDBCache_get (TMDBCache_set c key v t0) key t1) = c(key := None)"
    by (simp add: expired)
  fix t2
  show "fst (TMDBCache_get (snd (TMDBCache_get (TMDBCache_set c key v t0) key t1)) key t2) = None"
    by (simp add: expired TMDBCache_get_absent)
next
  fix w c'
  assume "TMDBCache_get c0 key now = (Some w, c')"
  from TMDBCache_get_served [OF this]
  show "\<exists>entry. c0 key = Some entry \<and> data entry = w \<and> now - timestamp entry \<le> 15 * 60 * 1000"
    by (auto simp: ttl_def)
qed

theorem TMDBCache_get_after_set_witness:
  "(901000 - 1000 \<le> (15 * 60 * 1000 :: int)
      \<and> TMDBCache_get (TMDBCache_set Map.empty ''/configuration:{}'' (JStr ''cfg'') 1000)
           ''/configuration:{}'' 901000
         = (Some (JStr ''cfg''), TMDBCache_set Map.empty ''/configuration:{}'' (JStr ''cfg'') 1000))
   \<and> (901001 - 1000 > (15 * 60 * 1000 :: int)
      \<and> fst (TMDBCache_get (TMDBCache_set Map.empty ''/configuration:{}'' (JStr ''cfg'') 1000)
           ''/configuration:{}'' 901001) = None
      \<and> snd (TMDBCache_get (TMDBCache_set Map.empty ''/configuration:{}'' (JStr ''cfg'') 1000)
           ''/configuration:{}'' 901001) = Map.empty)
   \<and> (TMDBCache_get (TMDBCache_set Map.empty ''/configuration:{}'' (JStr ''cfg'') 1000)
           ''/configuration:{}'' 2000
         = (Some (JStr ''cfg''), TMDBCache_set Map.empty ''/configuration:{}'' (JStr ''cfg'') 1000)
      \<and> (\<exists>entry. TMDBCache_set Map.empty ''/configuration:{}'' (JStr ''cfg'') 1000
                     ''/configuration:{}'' = Some entry
            \<and> data entry = JStr ''cfg'' \<and> 2000 - timestamp entry \<le> 15 * 60 * 1000))"
proof -
  let ?k = "''/configuration:{}''"
  let ?c = "TMDBCache_set Map.empty ?k (JStr ''cfg'') 1000"
  have fresh: "(901000::int) - 1000 \<le> 15 * 60 * 1000" by simp
  have late: "(901001::int) - 1000 > 15 * 60 * 1000" by simp
  have young: "(2000::int) - 1000 \<le> 15 * 60 * 1000" by simp
  note a = TMDBCache_get_after_set [of 901000 1000 Map.empty ?k "JStr ''cfg''" ?c 0]
  note b = TMDBCache_get_after_set [of 901001 1000 Map.empty ?k "JStr ''cfg''" ?c 0]
  note d = TMDBCache_get_after_set [of 2000 1000 Map.empty ?k "JStr ''cfg''" ?c 2000]
  have served: "TMDBCache_get ?c ?k 2000 = (Some (JStr ''cfg''), ?c)"
    using d young by blast
  have old: "\<exists>entry. ?c ?k = Some entry \<and> data entry = JStr ''cfg''
               \<and> 2000 - timestamp entry \<le> 15 * 60 * 1000"
    using d served by blast
  from a fresh have 1: "TMDBCache_get ?c ?k 901000 = (Some (JStr ''cfg''), ?c)"
    by blast
  from b late have 2: "fst (TMDBCache_get ?c ?k 901001) = None"
    and 3: "snd (TMDBCache_get ?c ?k 901001) = Map.empty"
    by simp_all
  from fresh late 1 2 3 served old show ?thesis
    by blast
qed

section \<open>Properties of the search proxy route\<close>

lemma GET_without_query:
  "q = None \<or> q = Some [] \<Longrightarrow>
   GET e cache t_get t_set q =
     (\<lparr>http_status = 400, body = error_body q_required, headers = []\<rparr>, cache)"
  by (auto simp: GET_def)

lemma GET_search_rejected:
  "qry \<noteq> [] \<Longrightarrow> searchMulti e cache t_get t_set qry 1 = (Inl err, cache') \<Longrightarrow>
   GET e cache t_get t_set (Some qry) =
     (\<lparr>http_status = 500, body = error_body ''Failed to search TMDB'', headers = []\<rparr>, cache')"
  by (simp add: GET_def)

lemma GET_search_resolved:
  "qry \<noteq> [] \<Longrightarrow> searchMulti e cache t_get t_set qry 1 = (Inr results, cache') \<Longrightarrow>
   GET e cache t_get t_set (Some qry) =
     (\<lparr>http_status = 200, body = results,
       headers = [(''Cache-Control'', ''public, s-maxage=900, stale-while-revalidate=1800'')]\<rparr>,
      cache')"
  by (simp add: GET_def)

lemma GET_status_400_iff:
  "http_status (fst (GET e cache t_get t_set q)) = 400 \<longleftrightarrow> q = None \<or> q = Some []"
  by (cases "searchMulti e cache t_get t_set (the q) 1")
     (auto simp: GET_def split: option.splits sum.splits)

lemma toString_900: "toString 900 = ''900''"
  by (simp add: toString.simps digits_def)

lemma searchMulti_offline:
  "searchMulti offline_env Map.empty 0 0 ''dune'' 1 = (Inl FetchRejected, Map.empty)"
  by (simp add: searchMulti_def tmdbFetch_def offline_env_def answering_env_def
      key_or_empty_def TMDBCache_get_def)

lemma searchMulti_answering:
  "searchMulti answering_env Map.empty 0 5 ''dune'' 1 =
     (Inr empty_page,
      TMDBCache_set Map.empty
        (''/search/multi:'' @ JSON_stringify answering_env
           [(''query'', ''dune''), (''page'', toString 1), (''include_adult'', ''false'')])
        empty_page 5)"
  by (simp add: searchMulti_def tmdbFetch_def answering_env_def
      key_or_empty_def TMDBCache_get_def)

text \<open>
  C10, as stated, fails: with the parameter present but empty (\<^verbatim>\<open>?q=\<close>) the
  handler answers 400 with the same body, so the 400 answer is not given exactly
  when the parameter is absent.
\<close>

theorem GET_empty_q_counterexample:
  \<open>GET answering_env Map.empty 0 0 (Some []) =
     (\<lparr>http_status = 400,
       body = JObj [(''error'', JStr ''Query parameter "q" is required'')],
       headers = []\<rparr>, Map.empty)
   \<and> Some [] \<noteq> (None :: string option)\<close>
  by (simp add: GET_def error_body_def q_required_def)

text \<open>
  C10, amended. The handler answers 400 with the body
  \<^verbatim>\<open>{error: 'Query parameter "q" is required'}\<close> exactly when the parameter
  \<open>q\<close> is absent or empty, without searching and leaving the cache alone. With a
  non-empty \<open>q\<close> every rejection of the TMDB search becomes the 500 answer with
  the body \<^verbatim>\<open>{error: 'Failed to search TMDB'}\<close>, and a resolved search is
  answered 200 with the results as the body and a \<^verbatim>\<open>Cache-Control\<close> header
  whose \<^verbatim>\<open>s-maxage\<close> is 15 minutes in seconds. The handler always answers.
\<close>

theorem GET_search_contract:
  \<open>(http_status (fst (GET e cache t_get t_set q)) = 400 \<longleftrightarrow> q = None \<or> q = Some [])
   \<and> (q = None \<or> q = Some [] \<longrightarrow>
        GET e cache t_get t_set q =
          (\<lparr>http_status = 400,
            body = JObj [(''error'', JStr ''Query parameter "q" is required'')],
            headers = []\<rparr>, cache))
   \<and> (\<forall>qry err cache'.
        q = Some qry \<and> qry \<noteq> [] \<and>
        searchMulti e cache t_get t_set qry 1 = (Inl err, cache') \<longrightarrow>
        GET e cache t_get t_set q =
          (\<lparr>http_status = 500,
            body = JObj [(''error'', JStr ''Failed to search TMDB'')],
            headers = []\<rparr>, cache'))
   \<and> (\<forall>qry results cache'.
        q = Some qry \<and> qry \<noteq> [] \<and>
        searchMulti e cache t_get t_set qry 1 = (Inr results, cache') \<longrightarrow>
        GET e cache t_get t_set q =
          (\<lparr>http_status = 200, body = results,
            headers = [(''Cache-Control'',
                        ''public, s-maxage='' @ toString (15 * 60)
                          @ '', stale-while-revalidate=1800'')]\<rparr>, cache'))
   \<and> http_status (fst (GET e cache t_get t_set q)) \<in> {200, 400, 500}\<close>
proof (intro conjI allI impI)
  show "http_status (fst (GET e cache t_get t_set q)) = 400 \<longleftrightarrow> q = None \<or> q = Some []"
    by (rule GET_status_400_iff)
next
  assume "q = None \<or> q = Some []"
  then show \<open>GET e cache t_get t_set q =
      (\<lparr>http_status = 400,
        body = JObj [(''error'', JStr ''Query parameter "q" is required'')],
        headers = []\<rparr>, cache)\<close>
    by (simp add: GET_without_query error_body_def q_required_def)
next
  fix qry err cache'
  assume "q = Some qry \<and> qry \<noteq> [] \<and>
          searchMulti e cache t_get t_set qry 1 = (Inl err, cache')"
  then show "GET e cache t_get t_set q =
      (\<lparr>http_status = 500, body = JObj [(''error'', JStr ''Failed to search TMDB'')],
        headers = []\<rparr>, cache')"
    by (simp add: GET_search_rejected error_body_def)
next
  fix qry results cache'
  assume "q = Some qry \<and> qry \<noteq> [] \<and>
          searchMulti e cache t_get t_set qry 1 = (Inr results, cache')"
  then show "GET e cache t_get t_set q =
      (\<lparr>http_status = 200, body = results,
        headers = [(''Cache-Control'',
                    ''public, s-maxage='' @ toString (15 * 60)
                      @ '', stale-while-revalidate=1800'')]\<rparr>, cache')"
    by (simp add: GET_search_resolved toString_900)
next
  show "http_status (fst (GET e cache t_get t_set q)) \<in> {200, 400, 500}"
    by (cases "searchMulti e cache t_get t_set (the q) 1")
       (auto simp: GET_def split: option.splits sum.splits)
qed

theorem GET_search_contract_witness:
  \<open>GET answering_env Map.empty 0 5 None =
      (\<lparr>http_status = 400,
        body = JObj [(''error'', JStr ''Query parameter "q" is required'')],
        headers = []\<rparr>, Map.empty)
   \<and> (searchMulti offline_env Map.empty 0 0 ''dune'' 1 = (Inl FetchRejected, Map.empty)
      \<and> GET offline_env Map.empty 0 0 (Some ''dune'') =
          (\<lparr>http_status = 500,
            body = JObj [(''error'', JStr ''Failed to search TMDB'')],
            headers = []\<rparr>, Map.empty))
   \<and> (fst (searchMulti answering_env Map.empty 0 5 ''dune'' 1) = Inr empty_page
      \<and> fst (GET answering_env Map.empty 0 5 (Some ''dune'')) =
          \<lparr>http_status = 200, body = empty_page,
            headers = [(''Cache-Control'',
                        ''public, s-maxage=900, stale-while-revalidate=1800'')]\<rparr>)\<close>
proof -
  have absent: "(None :: string option) = None \<or> (None :: string option) = Some []"
    by simp
  from GET_search_contract [of answering_env Map.empty 0 5 None] absent
  have 1: \<open>GET answering_env Map.empty 0 5 None =
      (\<lparr>http_status = 400,
        body = JObj [(''error'', JStr ''Query parameter "q" is required'')],
        headers = []\<rparr>, Map.empty)\<close>
    by blast
  have named: "''dune'' \<noteq> []" by simp
  from GET_search_contract [of offline_env Map.empty 0 0 "Some ''dune''"]
    searchMulti_offline named
  have 2: "GET offline_env Map.empty 0 0 (Some ''dune'') =
      (\<lparr>http_status = 500, body = JObj [(''error'', JStr ''Failed to search TMDB'')],
        headers = []\<rparr>, Map.empty)"
    by blast
  from GET_search_contract [of answering_env Map.empty 0 5 "Some ''dune''"]
    searchMulti_answering named
  have 3: "fst (GET answering_env Map.empty 0 5 (Some ''dune'')) =
      \<lparr>http_status = 200, body = empty_page,
        headers = [(''Cache-Control'',
                    ''public, s-maxage='' @ toString (15 * 60)
                      @ '', stale-while-revalidate=1800'')]\<rparr>"
    by (metis fst_conv)
  from 1 2 3 searchMulti_offline searchMulti_answering show ?thesis
    by (simp add: toString_900)
qed

section \<open>Properties of the modelled pipeline\<close>

text \<open>
  C1. For every assessment: a score of at least 8.5 gives the weights 0.85 and
  0.15, a score of at least 7.0 and below 8.5 gives 0.55 and 0.45, a score below
  7.0 gives 0.25 and 0.75; the lower bound of each bracket belongs to it, and the
  two weights always sum to exactly 1.
\<close>

theorem combine_threshold_table:
  "(score a \<ge> 8.5 \<longrightarrow> combine a = \<lparr>databaseWeight = 0.85, webWeight = 0.15\<rparr>)
   \<and> (7.0 \<le> score a \<and> score a < 8.5 \<longrightarrow>
        combine a = \<lparr>databaseWeight = 0.55, webWeight = 0.45\<rparr>)
   \<and> (score a < 7.0 \<longrightarrow> combine a = \<lparr>databaseWeight = 0.25, webWeight = 0.75\<rparr>)
   \<and> databaseWeight (combine a) + webWeight (combine a) = 1"
  by (simp add: combine_def)

theorem combine_threshold_table_witness:
  "((8.5::rat) \<ge> 8.5
      \<and> combine \<lparr>score = 8.5, rationale = ''strong''\<rparr>
          = \<lparr>databaseWeight = 0.85, webWeight = 0.15\<rparr>)
   \<and> ((7.0::rat) \<le> 7.0 \<and> (7.0::rat) < 8.5
      \<and> combine \<lparr>score = 7.0, rationale = ''balanced''\<rparr>
          = \<lparr>databaseWeight = 0.55, webWeight = 0.45\<rparr>)
   \<and> ((6.2::rat) < 7.0
      \<and> combine \<lparr>score = 6.2, rationale = ''weak''\<rparr>
          = \<lparr>databaseWeight = 0.25, webWeight = 0.75\<rparr>)
   \<and> databaseWeight (combine \<lparr>score = 6.2, rationale = ''weak''\<rparr>)
        + webWeight (combine \<lparr>score = 6.2, rationale = ''weak''\<rparr>) = 1"
proof -
  have s1: "score \<lparr>score = 8.5, rationale = ''strong''\<rparr> \<ge> 8.5"
    by simp
  have s2: "7.0 \<le> score \<lparr>score = 7.0, rationale = ''balanced''\<rparr>
            \<and> score \<lparr>score = 7.0, rationale = ''balanced''\<rparr> < 8.5"
    by simp
  have s3: "score \<lparr>score = 6.2, rationale = ''weak''\<rparr> < 7.0"
    by simp
  from combine_threshold_table [of "\<lparr>score = 8.5, rationale = ''strong''\<rparr>"] s1
  have 1: "combine \<lparr>score = 8.5, rationale = ''strong''\<rparr>
             = \<lparr>databaseWeight = 0.85, webWeight = 0.15\<rparr>"
    by blast
  from combine_threshold_table [of "\<lparr>score = 7.0, rationale = ''balanced''\<rparr>"] s2
  have 2: "combine \<lparr>score = 7.0, rationale = ''balanced''\<rparr>
             = \<lparr>databaseWeight = 0.55, webWeight = 0.45\<rparr>"
    by blast
  note w = combine_threshold_table [of "\<lparr>score = 6.2, rationale = ''weak''\<rparr>"]
  from w s3 have 3: "combine \<lparr>score = 6.2, rationale = ''weak''\<rparr>
             = \<lparr>databaseWeight = 0.25, webWeight = 0.75\<rparr>"
    by blast
  from w have 4: "databaseWeight (combine \<lparr>score = 6.2, rationale = ''weak''\<rparr>)
        + webWeight (combine \<lparr>score = 6.2, rationale = ''weak''\<rparr>) = 1"
    by blast
  from 1 2 3 4 show ?thesis
    by simp
qed














end
